theory Spec2Isabelle
  imports Main
begin

section \<open>Python values used by the tool functions of tools.py\<close>

text \<open>
  A Python \<open>str\<close> is a sequence of Unicode code points, so it is modelled as a list of
  natural numbers; \<open>len\<close> is \<open>length\<close> and \<open>+\<close> is \<open>@\<close>. An ASCII literal of the source
  is written \<open>lit ''...''\<close>; the non-ASCII characters of the source's literals are given
  by their code points. \<open>bytes\<close> is a list of 8-bit characters.
\<close>

type_synonym pystr = "nat list"
type_synonym bytes = "char list"

definition lit :: "string \<Rightarrow> pystr" where
  "lit s = map of_char s"

text \<open>The non-ASCII characters of the literals in tools.py.\<close>

definition cross_mark :: pystr where "cross_mark = [0x274C]"
definition check_mark :: pystr where "check_mark = [0x2705]"
definition folder_sign :: pystr where "folder_sign = [0x1F4C1]"
definition picture_sign :: pystr where "picture_sign = [0x1F5BC, 0xFE0F]"
definition down_arrow :: pystr where "down_arrow = [0x2B07]"
definition warning_sign :: pystr where "warning_sign = [0x26A0, 0xFE0F]"

text \<open>
  \<open>str.strip()\<close> without argument removes leading and trailing white space, which for
  \<open>str\<close> is the set of code points CPython's \<open>Py_UNICODE_ISSPACE\<close> accepts.
\<close>

definition is_space :: "nat \<Rightarrow> bool" where
  "is_space c \<longleftrightarrow>
     (0x09 \<le> c \<and> c \<le> 0x0D) \<or> (0x1C \<le> c \<and> c \<le> 0x20) \<or> c = 0x85 \<or> c = 0xA0 \<or>
     c = 0x1680 \<or> (0x2000 \<le> c \<and> c \<le> 0x200A) \<or> c = 0x2028 \<or> c = 0x2029 \<or>
     c = 0x202F \<or> c = 0x205F \<or> c = 0x3000"

definition strip :: "pystr \<Rightarrow> pystr" where
  "strip s = rev (dropWhile is_space (rev (dropWhile is_space s)))"

text \<open>\<open>sub in s\<close> for two strings, and \<open>s.startswith(p)\<close>.\<close>

definition startswith :: "pystr \<Rightarrow> pystr \<Rightarrow> bool" where
  "startswith s p \<longleftrightarrow> take (length p) s = p"

fun contains :: "pystr \<Rightarrow> pystr \<Rightarrow> bool" where
  "contains sub [] \<longleftrightarrow> sub = []"
| "contains sub (c # cs) \<longleftrightarrow> startswith (c # cs) sub \<or> contains sub cs"

text \<open>\<open>str(n)\<close> for an \<open>int\<close>: the decimal digits, with a minus sign below zero.\<close>

fun str_nat :: "nat \<Rightarrow> pystr" where
  "str_nat n = (if n < 10 then [48 + n] else str_nat (n div 10) @ [48 + n mod 10])"

declare str_nat.simps [simp del]

definition str_int :: "int \<Rightarrow> pystr" where
  "str_int i = (if i < 0 then 45 # str_nat (nat (- i)) else str_nat (nat i))"

text \<open>\<open>repr\<close> of a string without quotes or backslashes: the string in single quotes.\<close>

definition quoted :: "pystr \<Rightarrow> pystr" where
  "quoted s = 39 # s @ [39]"

subsection \<open>Exceptions\<close>

text \<open>
  An exception value is its class and the text \<open>str(e)\<close>. Every class below derives from
  \<open>Exception\<close>, which is what the libraries called by the tools (requests, smtplib,
  together, base64, the file system calls) and the interpreter's own lookups raise.
  \<open>SMTPAuthenticationError\<close> derives from \<open>SMTPException\<close>; the constructor
  \<open>SMTPException\<close> stands for that class and its other subclasses, and \<open>OtherError\<close> for
  every remaining class (connection errors, timeouts, JSON decoding errors, \<open>OSError\<close>,
  \<open>binascii.Error\<close>, ...).
\<close>

datatype exn_class =
    SMTPAuthenticationError | SMTPException | HTTPError
  | KeyError | IndexError | TypeError | AttributeError | OtherError

datatype exn = Exn exn_class pystr

fun exn_str :: "exn \<Rightarrow> pystr" where
  "exn_str (Exn c m) = m"

fun is_SMTPAuthenticationError :: "exn \<Rightarrow> bool" where
  "is_SMTPAuthenticationError (Exn c m) \<longleftrightarrow> c = SMTPAuthenticationError"

fun is_SMTPException :: "exn \<Rightarrow> bool" where
  "is_SMTPException (Exn c m) \<longleftrightarrow> c = SMTPAuthenticationError \<or> c = SMTPException"

subsection \<open>Decoded JSON\<close>

text \<open>
  What \<open>response.json()\<close> returns: \<open>None\<close>, a \<open>bool\<close>, an \<open>int\<close>, a \<open>float\<close> (kept as its
  literal), a \<open>str\<close>, a \<open>list\<close> or a \<open>dict\<close> with string keys. The same type carries the
  payload the tools hand to \<open>json.dumps\<close>.
\<close>

datatype json =
    JNull | JBool bool | JInt int | JFloat pystr | JStr pystr
  | JList "json list" | JDict "(pystr \<times> json) list"

fun type_name :: "json \<Rightarrow> pystr" where
  "type_name JNull = lit ''NoneType''"
| "type_name (JBool b) = lit ''bool''"
| "type_name (JInt i) = lit ''int''"
| "type_name (JFloat f) = lit ''float''"
| "type_name (JStr s) = lit ''str''"
| "type_name (JList xs) = lit ''list''"
| "type_name (JDict kvs) = lit ''dict''"

definition not_subscriptable :: "json \<Rightarrow> exn" where
  "not_subscriptable v = Exn TypeError (quoted (type_name v) @ lit '' object is not subscriptable'')"

text \<open>\<open>v[key]\<close> for a string key.\<close>

fun getitem_str :: "json \<Rightarrow> pystr \<Rightarrow> exn + json" where
  "getitem_str (JDict kvs) key =
     (case map_of kvs key of None \<Rightarrow> Inl (Exn KeyError (quoted key)) | Some v \<Rightarrow> Inr v)"
| "getitem_str (JList xs) key =
     Inl (Exn TypeError (lit ''list indices must be integers or slices, not str''))"
| "getitem_str (JStr s) key =
     Inl (Exn TypeError (lit ''string indices must be integers, not '' @ quoted (lit ''str'')))"
| "getitem_str v key = Inl (not_subscriptable v)"

text \<open>\<open>v[0]\<close>. A decoded JSON object has string keys only, so the key \<open>0\<close> is never found.\<close>

fun getitem_0 :: "json \<Rightarrow> exn + json" where
  "getitem_0 (JList []) = Inl (Exn IndexError (lit ''list index out of range''))"
| "getitem_0 (JList (x # xs)) = Inr x"
| "getitem_0 (JDict kvs) = Inl (Exn KeyError (lit ''0''))"
| "getitem_0 (JStr []) = Inl (Exn IndexError (lit ''string index out of range''))"
| "getitem_0 (JStr (c # cs)) = Inr (JStr [c])"
| "getitem_0 v = Inl (not_subscriptable v)"

text \<open>\<open>v.strip()\<close>: only \<open>str\<close> has the method.\<close>

fun call_strip :: "json \<Rightarrow> exn + pystr" where
  "call_strip (JStr s) = Inr (strip s)"
| "call_strip v =
     Inl (Exn AttributeError (quoted (type_name v) @ lit '' object has no attribute '' @ quoted (lit ''strip'')))"

section \<open>The world outside the tools\<close>

subsection \<open>Data exchanged with the libraries\<close>

text \<open>
  A \<open>requests.Response\<close>: the status line, the final URL, the decoded body
  (\<open>response.text\<close>) and the outcome of \<open>response.json()\<close>, which raises on a body that is
  not JSON.
\<close>

record response =
  status_code :: int
  reason :: pystr
  resp_url :: pystr
  resp_text :: pystr
  json_result :: "exn + json"

text \<open>
  \<open>Response.raise_for_status()\<close> of requests: an \<open>HTTPError\<close> for a status from 400 to
  599, nothing otherwise.
\<close>

definition raise_for_status :: "response \<Rightarrow> exn + unit" where
  "raise_for_status r =
     (if 400 \<le> status_code r \<and> status_code r < 500 then
        Inl (Exn HTTPError (str_int (status_code r) @ lit '' Client Error: '' @ reason r
               @ lit '' for url: '' @ resp_url r))
      else if 500 \<le> status_code r \<and> status_code r < 600 then
        Inl (Exn HTTPError (str_int (status_code r) @ lit '' Server Error: '' @ reason r
               @ lit '' for url: '' @ resp_url r))
      else Inr ())"

text \<open>The keyword arguments of \<open>client.images.generate\<close>.\<close>

record image_request =
  img_prompt :: pystr
  img_model :: pystr
  img_steps :: int
  img_n :: int
  img_height :: int
  img_width :: int

text \<open>
  The image response of the together client: \<open>data\<close> is \<open>None\<close> or a list of items, each
  with an optional \<open>b64_json\<close> and an optional \<open>url\<close>.
\<close>

record image_info =
  b64_json :: "pystr option"
  url :: "pystr option"

record image_response =
  data :: "image_info list option"

text \<open>
  The \<open>MIMEMultipart\<close> message: the headers in the order they were set and the attached
  parts, each a subtype and a text. Setting a header and attaching a part do not raise;
  the constructor \<open>MIMEText\<close> raises on a text it cannot encode, and \<open>msg.as_string()\<close>
  raises on a message it cannot serialise (a header value with a line break in it, for
  one). Both outcomes are answers of the environment.
\<close>

record mime_message =
  msg_headers :: "(pystr \<times> pystr) list"
  msg_parts :: "(pystr \<times> pystr) list"

record datetime =
  dt_year :: nat
  dt_month :: nat
  dt_day :: nat
  dt_hour :: nat
  dt_minute :: nat
  dt_second :: nat

subsection \<open>Effects\<close>

text \<open>
  Every call that leaves the process or touches the file system is an effect. A tool
  returns, with its result, the effects it performed, in order. The HTTP requests carry
  their \<open>timeout\<close> argument (\<open>None\<close> when the call passes none) and, for a POST, the
  headers and the payload handed to \<open>json.dumps\<close>. \<open>ImagesGenerate\<close> is the construction of the
  \<open>Together\<close> client with the key and its \<open>images.generate\<close> call; \<open>MakeDirs\<close> carries the
  \<open>exist_ok\<close> flag, with which an existing directory is not an error.
\<close>

datatype effect =
    HttpGet pystr "int option"
  | HttpPost pystr "(pystr \<times> pystr) list" json "int option"
  | ImagesGenerate pystr image_request
  | SmtpConnect pystr int
  | SmtpStartTls
  | SmtpLogin pystr pystr
  | SmtpSendmail pystr "pystr list" pystr
  | SmtpQuit
  | MakeDirs pystr bool
  | FileOpenWb pystr
  | FileWrite pystr bytes

fun is_http :: "effect \<Rightarrow> bool" where
  "is_http (HttpGet u t) = True"
| "is_http (HttpPost u h p t) = True"
| "is_http e = False"

fun is_outbound :: "effect \<Rightarrow> bool" where
  "is_outbound (MakeDirs p ok) = False"
| "is_outbound (FileOpenWb p) = False"
| "is_outbound (FileWrite p b) = False"
| "is_outbound e = True"

fun is_file_effect :: "effect \<Rightarrow> bool" where
  "is_file_effect (MakeDirs p ok) = True"
| "is_file_effect (FileOpenWb p) = True"
| "is_file_effect (FileWrite p b) = True"
| "is_file_effect e = False"

fun http_timeout :: "effect \<Rightarrow> int option" where
  "http_timeout (HttpGet u t) = t"
| "http_timeout (HttpPost u h p t) = t"
| "http_timeout e = None"

subsection \<open>The environment\<close>

text \<open>
  What the process environment, the remote services, the mail server, the clock, the file
  system and the library functions that can raise answer. Each external call either
  returns or raises; a call that never answers has no outcome and is not a value of this
  record.
\<close>

record env =
  getenv :: "pystr \<Rightarrow> pystr option"
  requests_get :: "pystr \<Rightarrow> int option \<Rightarrow> exn + response"
  requests_post :: "pystr \<Rightarrow> (pystr \<times> pystr) list \<Rightarrow> json \<Rightarrow> int option \<Rightarrow> exn + response"
  mime_text :: "pystr \<Rightarrow> pystr \<Rightarrow> exn + unit"
  as_string :: "mime_message \<Rightarrow> exn + pystr"
  smtp_connect :: "pystr \<Rightarrow> int \<Rightarrow> exn + unit"
  smtp_starttls :: "exn + unit"
  smtp_login :: "pystr \<Rightarrow> pystr \<Rightarrow> exn + unit"
  smtp_sendmail :: "pystr \<Rightarrow> pystr list \<Rightarrow> pystr \<Rightarrow> exn + unit"
  smtp_quit :: "exn + unit"
  images_generate :: "pystr \<Rightarrow> image_request \<Rightarrow> exn + image_response option"
  b64decode :: "pystr \<Rightarrow> exn + bytes"
  path_home :: "exn + pystr"
  os_makedirs :: "pystr \<Rightarrow> exn + unit"
  datetime_now :: datetime
  open_wb :: "pystr \<Rightarrow> exn + unit"
  file_write :: "pystr \<Rightarrow> bytes \<Rightarrow> exn + unit"

subsection \<open>Results, raising and handling\<close>

text \<open>
  A Python function returns a value or raises. The values the tools can return are a
  \<open>str\<close> and, where a function body ends without a \<open>return\<close>, \<open>None\<close>.
\<close>

datatype pyval = PStr pystr | PNone

type_synonym 'a py = "(exn + 'a) \<times> effect list"

definition py_return :: "'a \<Rightarrow> 'a py" where
  "py_return x = (Inr x, [])"

definition py_eval :: "exn + 'a \<Rightarrow> 'a py" where
  "py_eval r = (r, [])"

definition py_call :: "effect \<Rightarrow> exn + 'a \<Rightarrow> 'a py" where
  "py_call ev outcome = (outcome, [ev])"

definition py_bind :: "'a py \<Rightarrow> ('a \<Rightarrow> 'b py) \<Rightarrow> 'b py" where
  "py_bind m f =
     (case m of
        (Inl e, t) \<Rightarrow> (Inl e, t)
      | (Inr x, t) \<Rightarrow> (case f x of (r, t') \<Rightarrow> (r, t @ t')))"

definition py_try :: "'a py \<Rightarrow> (exn \<Rightarrow> 'a py) \<Rightarrow> 'a py" where
  "py_try m handler =
     (case m of
        (Inl e, t) \<Rightarrow> (case handler e of (r, t') \<Rightarrow> (r, t @ t'))
      | (Inr x, t) \<Rightarrow> (Inr x, t))"

definition sum_bind :: "exn + 'a \<Rightarrow> ('a \<Rightarrow> exn + 'b) \<Rightarrow> exn + 'b" where
  "sum_bind m f = (case m of Inl e \<Rightarrow> Inl e | Inr x \<Rightarrow> f x)"

text \<open>The string a tool returned, if it returned one.\<close>

fun returned_str :: "pyval py \<Rightarrow> pystr option" where
  "returned_str (Inr (PStr s), t) = Some s"
| "returned_str (r, t) = None"

definition effects :: "'a py \<Rightarrow> effect list" where
  "effects m = snd m"

section \<open>The tool functions\<close>

text \<open>
  Each tool is the body of its \<open>try\<close> block followed by its \<open>except\<close> clauses. The calls
  to \<open>logging\<close> write a line to the log and have no part in the result; they are left out.
  \<open>truthy v\<close> is the test \<open>if v:\<close> on an optional string: \<open>None\<close> and the empty string
  fail it.
\<close>

definition truthy :: "pystr option \<Rightarrow> bool" where
  "truthy v = (case v of None \<Rightarrow> False | Some s \<Rightarrow> s \<noteq> [])"

subsection \<open>get_weather\<close>

definition get_weather_body :: "env \<Rightarrow> pystr \<Rightarrow> pyval py" where
  "get_weather_body env city =
     (let target = lit ''https://wttr.in/'' @ city @ lit ''?format=3'' in
      py_bind (py_call (HttpGet target None) (requests_get env target None)) (\<lambda>response.
        if status_code response = 200 then py_return (PStr (strip (resp_text response)))
        else py_return (PStr (lit ''Could not retrieve weather for '' @ city @ lit ''.''))))"

definition get_weather :: "env \<Rightarrow> pystr \<Rightarrow> pyval py" where
  "get_weather env city =
     py_try (get_weather_body env city) (\<lambda>e.
       py_return (PStr (lit ''An error occurred while retrieving weather for '' @ city @ lit ''.'')))"

subsection \<open>The chat-completion tools\<close>

definition completions_url :: pystr where
  "completions_url = lit ''https://openrouter.ai/api/v1/chat/completions''"

text \<open>The expression \<open>data["choices"][0]["message"]["content"].strip()\<close>.\<close>

definition first_choice_content :: "json \<Rightarrow> exn + pystr" where
  "first_choice_content result =
     sum_bind (getitem_str result (lit ''choices'')) (\<lambda>choices.
     sum_bind (getitem_0 choices) (\<lambda>choice.
     sum_bind (getitem_str choice (lit ''message'')) (\<lambda>message.
     sum_bind (getitem_str message (lit ''content'')) call_strip)))"

definition search_web_body :: "env \<Rightarrow> pystr \<Rightarrow> pyval py" where
  "search_web_body env query =
     (let api_key = getenv env (lit ''OPENROUTER_API_KEY'') in
      if \<not> truthy api_key then
        py_return (PStr (lit ''OpenRouter API key not found. Please check your .env file.''))
      else
        let headers = [(lit ''Authorization'', lit ''Bearer '' @ the api_key),
                       (lit ''Content-Type'', lit ''application/json'')];
            payload = JDict [
              (lit ''model'', JStr (lit ''tngtech/deepseek-r1t-chimera:free'')),
              (lit ''messages'', JList [
                 JDict [(lit ''role'', JStr (lit ''user'')), (lit ''content'', JStr query)]])]
        in
        py_bind (py_call (HttpPost completions_url headers payload None)
                   (requests_post env completions_url headers payload None)) (\<lambda>response.
        py_bind (py_eval (raise_for_status response)) (\<lambda>u.
        py_bind (py_eval (json_result response)) (\<lambda>result.
        py_bind (py_eval (first_choice_content result)) (\<lambda>content.
        py_return (PStr content))))))"

definition search_web :: "env \<Rightarrow> pystr \<Rightarrow> pyval py" where
  "search_web env query =
     py_try (search_web_body env query) (\<lambda>e.
       py_return (PStr (lit ''Error talking to OpenRouter AI: '' @ exn_str e)))"

definition generate_code_body :: "env \<Rightarrow> pystr \<Rightarrow> pyval py" where
  "generate_code_body env prompt =
     (let api_key = getenv env (lit ''OPENROUTER_API_KEY'') in
      if \<not> truthy api_key then
        py_return (PStr (cross_mark @ lit '' Missing OpenRouter API key. Please check your .env file.''))
      else
        let headers = [(lit ''Authorization'', lit ''Bearer '' @ the api_key),
                       (lit ''Content-Type'', lit ''application/json''),
                       (lit ''HTTP-Referer'', lit ''https://your-site.com''),
                       (lit ''X-Title'', lit ''MiaAssistant'')];
            payload = JDict [
              (lit ''model'', JStr (lit ''deepseek/deepseek-r1-0528:free'')),
              (lit ''messages'', JList [
                 JDict [(lit ''role'', JStr (lit ''system'')),
                        (lit ''content'', JStr (lit ''You are a professional senior software engineer. Write complete, well-documented code for the task.''))],
                 JDict [(lit ''role'', JStr (lit ''user'')), (lit ''content'', JStr prompt)]])]
        in
        py_bind (py_call (HttpPost completions_url headers payload (Some 30))
                   (requests_post env completions_url headers payload (Some 30))) (\<lambda>response.
        py_bind (py_eval (raise_for_status response)) (\<lambda>u.
        py_bind (py_eval (json_result response)) (\<lambda>result.
        py_bind (py_eval (first_choice_content result)) (\<lambda>content.
        py_return (PStr content))))))"

definition generate_code :: "env \<Rightarrow> pystr \<Rightarrow> pyval py" where
  "generate_code env prompt =
     py_try (generate_code_body env prompt) (\<lambda>e.
       py_return (PStr (cross_mark @ lit '' Code generation failed: '' @ exn_str e)))"

text \<open>\<open>words\<close> has the default 500 in the source; here it is always given.\<close>

definition write_essay_body :: "env \<Rightarrow> pystr \<Rightarrow> int \<Rightarrow> pyval py" where
  "write_essay_body env topic words =
     (let api_key = getenv env (lit ''OPENROUTER_API_KEY'') in
      if \<not> truthy api_key then
        py_return (PStr (cross_mark @ lit '' OpenRouter API key is missing. Please check your .env file.''))
      else
        let headers = [(lit ''Authorization'', lit ''Bearer '' @ the api_key),
                       (lit ''Content-Type'', lit ''application/json''),
                       (lit ''HTTP-Referer'', lit ''https://your-site.com''),
                       (lit ''X-Title'', lit ''MiaAssistant'')];
            system_prompt =
              lit ''You are a professional academic writer. Write an original, human-sounding essay ''
              @ lit ''on the topic provided. Avoid robotic phrasing, vary sentence structures, ''
              @ lit ''and use natural transitions. Target a length of '' @ str_int words @ lit '' words. ''
              @ lit ''The tone should mimic a well-read human student or journalist.'';
            user_prompt = lit ''Write an essay on: '' @ topic;
            payload = JDict [
              (lit ''model'', JStr (lit ''mistralai/mixtral-8x7b-instruct'')),
              (lit ''messages'', JList [
                 JDict [(lit ''role'', JStr (lit ''system'')), (lit ''content'', JStr system_prompt)],
                 JDict [(lit ''role'', JStr (lit ''user'')), (lit ''content'', JStr user_prompt)]])]
        in
        py_bind (py_call (HttpPost completions_url headers payload None)
                   (requests_post env completions_url headers payload None)) (\<lambda>response.
        py_bind (py_eval (raise_for_status response)) (\<lambda>u.
        py_bind (py_eval (json_result response)) (\<lambda>result.
        py_bind (py_eval (first_choice_content result)) (\<lambda>content.
        py_return (PStr content))))))"

definition write_essay :: "env \<Rightarrow> pystr \<Rightarrow> int \<Rightarrow> pyval py" where
  "write_essay env topic words =
     py_try (write_essay_body env topic words) (\<lambda>e.
       py_return (PStr (cross_mark @ lit '' Essay generation failed: '' @ exn_str e)))"

subsection \<open>send_email\<close>

text \<open>
  The statements of the \<open>try\<close> block in their order. The headers and the recipients are
  built without a call that can raise; \<open>MIMEText(message, "plain")\<close> can raise, before the
  session is opened. \<open>smtplib.SMTP(host, port)\<close> connects, and each later call on the session
  is one effect. The argument \<open>msg.as_string()\<close> of \<open>sendmail\<close> is evaluated after the login
  and can raise, in which case \<open>sendmail\<close> is not called.
\<close>

definition email_headers :: "pystr \<Rightarrow> pystr \<Rightarrow> pystr \<Rightarrow> pystr option \<Rightarrow> (pystr \<times> pystr) list" where
  "email_headers gmail_user to_email subject cc_email =
     [(lit ''From'', gmail_user), (lit ''To'', to_email), (lit ''Subject'', subject)]
     @ (if truthy cc_email then [(lit ''Cc'', the cc_email)] else [])"

definition email_recipients :: "pystr \<Rightarrow> pystr option \<Rightarrow> pystr list" where
  "email_recipients to_email cc_email =
     [to_email] @ (if truthy cc_email then [the cc_email] else [])"

definition send_email_body ::
  "env \<Rightarrow> pystr \<Rightarrow> pystr \<Rightarrow> pystr \<Rightarrow> pystr option \<Rightarrow> pyval py" where
  "send_email_body env to_email subject message cc_email =
     (let smtp_server = lit ''smtp.gmail.com'';
          smtp_port = 587;
          gmail_user = getenv env (lit ''GMAIL_USER'');
          gmail_password = getenv env (lit ''GMAIL_APP_PASSWORD'')
      in
      if \<not> truthy gmail_user \<or> \<not> truthy gmail_password then
        py_return (PStr (lit ''Email sending failed: Gmail credentials not configured.''))
      else
        let recipients = email_recipients to_email cc_email in
        py_bind (py_eval (mime_text env message (lit ''plain''))) (\<lambda>u0.
        let msg = \<lparr>msg_headers = email_headers (the gmail_user) to_email subject cc_email,
                   msg_parts = [(lit ''plain'', message)]\<rparr>
        in
        py_bind (py_call (SmtpConnect smtp_server smtp_port) (smtp_connect env smtp_server smtp_port)) (\<lambda>u1.
        py_bind (py_call SmtpStartTls (smtp_starttls env)) (\<lambda>u2.
        py_bind (py_call (SmtpLogin (the gmail_user) (the gmail_password))
                   (smtp_login env (the gmail_user) (the gmail_password))) (\<lambda>u3.
        py_bind (py_eval (as_string env msg)) (\<lambda>serialised.
        py_bind (py_call (SmtpSendmail (the gmail_user) recipients serialised)
                   (smtp_sendmail env (the gmail_user) recipients serialised)) (\<lambda>u4.
        py_bind (py_call SmtpQuit (smtp_quit env)) (\<lambda>u5.
        py_return (PStr (lit ''Email sent successfully to '' @ to_email))))))))))"

definition auth_failure_text :: pystr where
  "auth_failure_text =
     lit ''Email sending failed: Authentication error. Please check your Gmail credentials.''"

definition send_email_handler :: "exn \<Rightarrow> pyval py" where
  "send_email_handler e =
     (if is_SMTPAuthenticationError e then py_return (PStr auth_failure_text)
      else if is_SMTPException e then
        py_return (PStr (lit ''Email sending failed: SMTP error - '' @ exn_str e))
      else py_return (PStr (lit ''An error occurred while sending email: '' @ exn_str e)))"

definition send_email ::
  "env \<Rightarrow> pystr \<Rightarrow> pystr \<Rightarrow> pystr \<Rightarrow> pystr option \<Rightarrow> pyval py" where
  "send_email env to_email subject message cc_email =
     py_try (send_email_body env to_email subject message cc_email) send_email_handler"

subsection \<open>generate_ai_image\<close>

text \<open>\<open>os.path.join\<close> of two components, as \<open>posixpath\<close> computes it.\<close>

definition os_path_join :: "pystr \<Rightarrow> pystr \<Rightarrow> pystr" where
  "os_path_join a b =
     (if startswith b (lit ''/'') then b
      else if a = [] \<or> last a = 47 then a @ b
      else a @ lit ''/'' @ b)"

text \<open>\<open>strftime("%Y%m%d_%H%M%S")\<close>: every field in decimal, padded with zeros to its width.\<close>

definition zfill :: "nat \<Rightarrow> pystr \<Rightarrow> pystr" where
  "zfill w s = replicate (w - length s) 48 @ s"

definition strftime :: "datetime \<Rightarrow> pystr" where
  "strftime d =
     zfill 4 (str_nat (dt_year d)) @ zfill 2 (str_nat (dt_month d)) @ zfill 2 (str_nat (dt_day d))
     @ lit ''_''
     @ zfill 2 (str_nat (dt_hour d)) @ zfill 2 (str_nat (dt_minute d)) @ zfill 2 (str_nat (dt_second d))"

text \<open>The two HTML fragments that both success messages end with.\<close>

definition img_tag :: "pystr \<Rightarrow> pystr \<Rightarrow> pystr" where
  \<open>img_tag src alt =
     lit ''<img src="'' @ src @ lit ''" alt="'' @ alt
     @ lit ''" style="max-width:100%; border-radius:12px;"/><br>''\<close>

definition download_link :: "pystr \<Rightarrow> pystr" where
  \<open>download_link href =
     lit ''<a href="'' @ href
     @ lit ''" download="ai_image.png" style="display:inline-block;margin-top:10px;padding:8px 12px;background-color:#007bff;color:white;border-radius:6px;text-decoration:none;">''
     @ down_arrow @ lit '' Download Image</a>''\<close>

text \<open>
  The branch taken when the first item has a base64 payload. \<open>FileWrite\<close> stands for
  \<open>f.write\<close> and the close at the end of the \<open>with\<close> block.
\<close>

definition save_image :: "env \<Rightarrow> pystr \<Rightarrow> pystr \<Rightarrow> pyval py" where
  "save_image env prompt image_base64 =
     py_bind (py_eval (b64decode env image_base64)) (\<lambda>image_bytes.
     py_bind (py_eval (path_home env)) (\<lambda>home.
     let pictures_folder = os_path_join home (lit ''Pictures'') in
     py_bind (py_call (MakeDirs pictures_folder True) (os_makedirs env pictures_folder)) (\<lambda>u1.
     let timestamp = strftime (datetime_now env);
         image_path = os_path_join pictures_folder (lit ''ai_image_'' @ timestamp @ lit ''.png'')
     in
     py_bind (py_call (FileOpenWb image_path) (open_wb env image_path)) (\<lambda>u2.
     py_bind (py_call (FileWrite image_path image_bytes) (file_write env image_path image_bytes)) (\<lambda>u3.
     let data_url = lit ''data:image/png;base64,'' @ image_base64 in
     py_return (PStr (
       check_mark @ lit '' Image generated successfully!<br>''
       @ folder_sign @ lit '' Saved to: `'' @ image_path @ lit ''`<br>''
       @ picture_sign @ lit '' Preview:<br>''
       @ img_tag data_url prompt
       @ download_link data_url)))))))"

definition generate_ai_image_body :: "env \<Rightarrow> pystr \<Rightarrow> pyval py" where
  "generate_ai_image_body env prompt =
     (if prompt = [] \<or> length (strip prompt) < 3 then
        py_return (PStr (cross_mark @ lit '' Please provide a clear description of the image you want.''))
      else
        let api_key = getenv env (lit ''TOGETHER_API_KEY'') in
        if \<not> truthy api_key then
          py_return (PStr (cross_mark @ lit '' Together AI API key not found. Please check your .env file.''))
        else
          let request = \<lparr>img_prompt = strip prompt,
                         img_model = lit ''black-forest-labs/FLUX.1-schnell-Free'',
                         img_steps = 4, img_n = 1, img_height = 1024, img_width = 1024\<rparr>
          in
          py_bind (py_call (ImagesGenerate (the api_key) request)
                     (images_generate env (the api_key) request)) (\<lambda>response.
          case (case response of None \<Rightarrow> None | Some r \<Rightarrow> data r) of
            None \<Rightarrow> py_return (PStr (cross_mark @ lit '' No image data was returned. Try a different prompt.''))
          | Some [] \<Rightarrow> py_return (PStr (cross_mark @ lit '' No image data was returned. Try a different prompt.''))
          | Some (image_info # others) \<Rightarrow>
              let image_base64 = b64_json image_info;
                  image_url = url image_info
              in
              if \<not> truthy image_base64 \<and> \<not> truthy image_url then
                py_return (PStr (cross_mark @ lit '' Image generation failed: no usable output.''))
              else if truthy image_base64 then save_image env prompt (the image_base64)
              else if truthy image_url then
                py_return (PStr (
                  check_mark @ lit '' Image generated successfully via URL!<br>''
                  @ picture_sign @ lit '' Preview:<br>''
                  @ img_tag (the image_url) prompt
                  @ download_link (the image_url)))
              else py_return PNone))"

definition generate_ai_image :: "env \<Rightarrow> pystr \<Rightarrow> pyval py" where
  "generate_ai_image env prompt =
     py_try (generate_ai_image_body env prompt) (\<lambda>e.
       py_return (PStr (warning_sign @ lit '' Image generation failed: '' @ exn_str e)))"

section \<open>Predicates of the specification and example environments\<close>

text \<open>
  A credential or configuration phrase: what the five missing-credential messages of
  tools.py have in common.
\<close>

definition credential_phrase :: "pystr \<Rightarrow> bool" where
  "credential_phrase s \<longleftrightarrow>
     contains (lit ''API key'') s \<or> contains (lit ''credential'') s
     \<or> contains (lit ''configured'') s \<or> contains (lit ''.env'') s"

text \<open>
  The exception an outcome carries, if it is a raise, and the first exception in a
  sequence of steps: the one that leaves a block running the steps in that order.
\<close>

definition raised :: "exn + 'a \<Rightarrow> exn option" where
  "raised r = (case r of Inl e \<Rightarrow> Some e | Inr x \<Rightarrow> None)"

fun first_raised :: "exn option list \<Rightarrow> exn option" where
  "first_raised [] = None"
| "first_raised (None # steps) = first_raised steps"
| "first_raised (Some e # steps) = Some e"





text \<open>
  An environment with no credential and no network: every remote call raises, the file
  system accepts every operation, and a message is serialised unless one of its header
  values has a line break in it. The examples below change one answer at a time.
\<close>

definition unreachable :: exn where
  "unreachable = Exn OtherError (lit ''Connection refused'')"

definition example_as_string :: "mime_message \<Rightarrow> exn + pystr" where
  "example_as_string m =
     (if list_ex (\<lambda>kv. 10 \<in> set (snd kv) \<or> 13 \<in> set (snd kv)) (msg_headers m) then
        Inl (Exn OtherError (lit ''folded header contains newline''))
      else
        Inr (concat (map (\<lambda>kv. fst kv @ lit '': '' @ snd kv @ [10]) (msg_headers m))
             @ [10] @ concat (map snd (msg_parts m))))"

definition offline_env :: env where
  "offline_env = \<lparr>
     getenv = (\<lambda>k. None),
     requests_get = (\<lambda>u t. Inl unreachable),
     requests_post = (\<lambda>u h p t. Inl unreachable),
     mime_text = (\<lambda>t s. Inr ()),
     as_string = example_as_string,
     smtp_connect = (\<lambda>h p. Inl unreachable),
     smtp_starttls = Inl unreachable,
     smtp_login = (\<lambda>u p. Inl unreachable),
     smtp_sendmail = (\<lambda>f r m. Inl unreachable),
     smtp_quit = Inl unreachable,
     images_generate = (\<lambda>k r. Inl unreachable),
     b64decode = (\<lambda>s. Inl (Exn OtherError (lit ''Incorrect padding''))),
     path_home = Inr (lit ''/home/mia''),
     os_makedirs = (\<lambda>p. Inr ()),
     datetime_now = \<lparr>dt_year = 2024, dt_month = 1, dt_day = 2,
                      dt_hour = 3, dt_minute = 4, dt_second = 5\<rparr>,
     open_wb = (\<lambda>p. Inr ()),
     file_write = (\<lambda>p b. Inr ())\<rparr>"

definition plain_response :: "int \<Rightarrow> pystr \<Rightarrow> response" where
  "plain_response code body = \<lparr>
     status_code = code, reason = lit ''-'', resp_url = lit ''https://wttr.in/'',
     resp_text = body, json_result = Inl (Exn OtherError (lit ''Expecting value''))\<rparr>"

text \<open>The body \<open>London: <sun> +20<degree>C\<close> followed by a newline, as the service sends it.\<close>

definition london_body :: pystr where
  "london_body = lit ''London: '' @ [0x2600, 0xFE0F] @ lit '' +20'' @ [0xB0] @ lit ''C'' @ [10]"

definition weather_env :: "int \<Rightarrow> env" where
  "weather_env code = offline_env\<lparr>requests_get := (\<lambda>u t. Inr (plain_response code london_body))\<rparr>"

text \<open>Every environment variable is set, the network is still unreachable.\<close>

definition configured_env :: env where
  "configured_env = offline_env\<lparr>getenv := (\<lambda>k. Some (lit ''secret''))\<rparr>"

text \<open>
  A completion service that answers every request with two choices, the first of the given
  content.
\<close>

definition completion_json :: "pystr \<Rightarrow> json" where
  "completion_json content =
     JDict [(lit ''choices'', JList [
       JDict [(lit ''message'', JDict [(lit ''content'', JStr content)])],
       JDict [(lit ''message'', JDict [(lit ''content'', JStr (lit ''a second choice''))])]])]"

definition completion_response :: "pystr \<Rightarrow> response" where
  "completion_response content = \<lparr>
     status_code = 200, reason = lit ''OK'', resp_url = completions_url,
     resp_text = [], json_result = Inr (completion_json content)\<rparr>"

definition chat_env :: "pystr \<Rightarrow> env" where
  "chat_env content = configured_env\<lparr>requests_post := (\<lambda>u h p t. Inr (completion_response content))\<rparr>"


definition url_item :: image_info where
  "url_item = \<lparr>b64_json = None, url = Some (lit ''https://img.example/1.png'')\<rparr>"

definition image_env :: "image_info \<Rightarrow> env" where
  "image_env item = configured_env\<lparr>
     images_generate := (\<lambda>k r. Inr (Some \<lparr>data = Some [item]\<rparr>)),
     b64decode := (\<lambda>s. if s = lit ''aGk='' then Inr ''hi''
                         else Inl (Exn OtherError (lit ''Incorrect padding'')))\<rparr>"

text \<open>
  Mail servers: one accepts the whole session, one refuses the login, one refuses the
  recipients.
\<close>

definition mail_env :: "(exn + unit) \<Rightarrow> (exn + unit) \<Rightarrow> env" where
  "mail_env login_answer send_answer = configured_env\<lparr>
     smtp_connect := (\<lambda>h p. Inr ()),
     smtp_starttls := Inr (),
     smtp_login := (\<lambda>u p. login_answer),
     smtp_sendmail := (\<lambda>f r m. send_answer),
     smtp_quit := Inr ()\<rparr>"

definition bad_login :: exn where
  "bad_login = Exn SMTPAuthenticationError (lit ''(535, Username and Password not accepted)'')"

definition refused :: exn where
  "refused = Exn SMTPException (lit ''recipients refused'')"

section \<open>Basic facts\<close>

lemmas py_defs =
  py_bind_def py_try_def py_return_def py_call_def py_eval_def sum_bind_def effects_def

lemma startswith_append: "startswith (sub @ b) sub"
  by (simp add: startswith_def)

lemma contains_self_prefix: "contains sub (sub @ b)"
proof (cases "sub @ b")
  case Nil
  then show ?thesis by simp
next
  case (Cons c cs)
  have "startswith (sub @ b) sub" by (rule startswith_append)
  then show ?thesis unfolding Cons by simp
qed

lemma contains_mid: "contains sub (a @ sub @ b)"
proof (induction a)
  case Nil
  show ?case using contains_self_prefix by simp
next
  case (Cons c a)
  then show ?case by simp
qed

section \<open>get_weather\<close>

text \<open>
  C10. \<open>get_weather\<close> takes only the status code 200 for success: whenever the request is
  answered with any other status code, 201 and 204 included, the tool returns
  \<open>Could not retrieve weather for {city}.\<close> and not the body of the response.
\<close>

theorem get_weather_only_200:
  assumes "requests_get env (lit ''https://wttr.in/'' @ city @ lit ''?format=3'') None = Inr response"
    and "status_code response \<noteq> 200"
  shows "returned_str (get_weather env city)
           = Some (lit ''Could not retrieve weather for '' @ city @ lit ''.'')"
  using assms by (simp add: get_weather_def get_weather_body_def py_defs)

theorem get_weather_only_200_witness:
  "status_code (plain_response 201 london_body) \<noteq> 200
   \<and> returned_str (get_weather (weather_env 201) (lit ''London''))
       = Some (lit ''Could not retrieve weather for London.'')
   \<and> status_code (plain_response 204 london_body) \<noteq> 200
   \<and> returned_str (get_weather (weather_env 204) (lit ''London''))
       = Some (lit ''Could not retrieve weather for London.'')"
  using get_weather_only_200 [of "weather_env 201" "lit ''London''" "plain_response 201 london_body"]
    get_weather_only_200 [of "weather_env 204" "lit ''London''" "plain_response 204 london_body"]
  by (simp add: weather_env_def offline_env_def plain_response_def lit_def)

text \<open>
  C4. For every city \<open>get_weather\<close> issues exactly one GET request, to the weather endpoint
  with the city in its path and with no timeout. When the request is answered with status
  200, the tool returns the body with the surrounding white space removed; when it is
  answered with another status, or raises, the tool returns a failure text of a fixed
  shape that contains the city. Success is the source's test \<open>status_code == 200\<close>.
\<close>

theorem get_weather_contract:
  "effects (get_weather env city) = [HttpGet (lit ''https://wttr.in/'' @ city @ lit ''?format=3'') None]
   \<and> (requests_get env (lit ''https://wttr.in/'' @ city @ lit ''?format=3'') None = Inr response
        \<and> status_code response = 200
      \<longrightarrow> returned_str (get_weather env city) = Some (strip (resp_text response)))
   \<and> (requests_get env (lit ''https://wttr.in/'' @ city @ lit ''?format=3'') None = Inr response
        \<and> status_code response \<noteq> 200
      \<longrightarrow> returned_str (get_weather env city)
            = Some (lit ''Could not retrieve weather for '' @ city @ lit ''.''))
   \<and> (requests_get env (lit ''https://wttr.in/'' @ city @ lit ''?format=3'') None = Inl e
      \<longrightarrow> returned_str (get_weather env city)
            = Some (lit ''An error occurred while retrieving weather for '' @ city @ lit ''.''))
   \<and> contains city (lit ''Could not retrieve weather for '' @ city @ lit ''.'')
   \<and> contains city (lit ''An error occurred while retrieving weather for '' @ city @ lit ''.'')"
proof -
  let ?target = "lit ''https://wttr.in/'' @ city @ lit ''?format=3''"
  have eff: "effects (get_weather env city) = [HttpGet ?target None]"
    by (cases "requests_get env ?target None")
       (simp_all add: get_weather_def get_weather_body_def py_defs)
  have ok: "requests_get env ?target None = Inr response \<and> status_code response = 200
      \<longrightarrow> returned_str (get_weather env city) = Some (strip (resp_text response))"
    by (simp add: get_weather_def get_weather_body_def py_defs)
  have bad: "requests_get env ?target None = Inr response \<and> status_code response \<noteq> 200
      \<longrightarrow> returned_str (get_weather env city)
            = Some (lit ''Could not retrieve weather for '' @ city @ lit ''.'')"
    by (simp add: get_weather_def get_weather_body_def py_defs)
  have exc: "requests_get env ?target None = Inl e
      \<longrightarrow> returned_str (get_weather env city)
            = Some (lit ''An error occurred while retrieving weather for '' @ city @ lit ''.'')"
    by (simp add: get_weather_def get_weather_body_def py_defs)
  show ?thesis using eff ok bad exc contains_mid by blast
qed

theorem get_weather_contract_witness:
  "effects (get_weather (weather_env 200) (lit ''London''))
     = [HttpGet (lit ''https://wttr.in/London?format=3'') None]
   \<and> returned_str (get_weather (weather_env 200) (lit ''London''))
       = Some (lit ''London: '' @ [0x2600, 0xFE0F] @ lit '' +20'' @ [0xB0] @ lit ''C'')
   \<and> returned_str (get_weather (weather_env 503) (lit ''London''))
       = Some (lit ''Could not retrieve weather for London.'')
   \<and> returned_str (get_weather offline_env (lit ''London''))
       = Some (lit ''An error occurred while retrieving weather for London.'')"
  using get_weather_contract [of "weather_env 200" "lit ''London''" "plain_response 200 london_body" unreachable]
    get_weather_contract [of "weather_env 503" "lit ''London''" "plain_response 503 london_body" unreachable]
    get_weather_contract [of offline_env "lit ''London''" "plain_response 200 london_body" unreachable]
  by (simp add: weather_env_def offline_env_def plain_response_def london_body_def strip_def is_space_def lit_def)

section \<open>generate_ai_image: validation of the prompt\<close>

text \<open>
  C3. For a prompt that is empty or has fewer than 3 characters once trimmed,
  \<open>generate_ai_image\<close> returns the validation message and performs no effect at all, so no
  outbound call of any kind, whatever the environment.
\<close>

theorem generate_ai_image_short_prompt:
  assumes "prompt = [] \<or> length (strip prompt) < 3"
  shows "returned_str (generate_ai_image env prompt)
           = Some (cross_mark @ lit '' Please provide a clear description of the image you want.'')
         \<and> effects (generate_ai_image env prompt) = []"
  using assms by (auto simp add: generate_ai_image_def generate_ai_image_body_def py_defs)

theorem generate_ai_image_short_prompt_witness:
  "length (strip (lit '' a'')) < 3
   \<and> returned_str (generate_ai_image (image_env url_item) (lit '' a''))
       = Some (cross_mark @ lit '' Please provide a clear description of the image you want.'')
   \<and> effects (generate_ai_image (image_env url_item) (lit '' a'')) = []
   \<and> returned_str (generate_ai_image (image_env url_item) [])
       = Some (cross_mark @ lit '' Please provide a clear description of the image you want.'')
   \<and> effects (generate_ai_image (image_env url_item) []) = []"
proof -
  have short: "length (strip (lit '' a'')) < 3"
    by (simp add: strip_def is_space_def lit_def)
  show ?thesis
    using short generate_ai_image_short_prompt [of "lit '' a''" "image_env url_item"]
      generate_ai_image_short_prompt [of "[]" "image_env url_item"]
    by simp
qed

section \<open>The chat-completion tools: the answer\<close>

lemma first_choice_content_shape:
  assumes "map_of kvs (lit ''choices'') = Some (JList (JDict ckvs # others))"
    and "map_of ckvs (lit ''message'') = Some (JDict mkvs)"
    and "map_of mkvs (lit ''content'') = Some (JStr content)"
  shows "first_choice_content (JDict kvs) = Inr (strip content)"
  using assms by (simp add: first_choice_content_def sum_bind_def)

lemma raise_for_status_ok:
  "\<not> (400 \<le> status_code r \<and> status_code r < 600) \<Longrightarrow> raise_for_status r = Inr ()"
  by (auto simp add: raise_for_status_def)

text \<open>
  C5. When the credential is configured and the completion endpoint answers with a response
  that passes \<open>raise_for_status\<close> and whose JSON body has the shape
  \<open>{choices: [{message: {content}}, ...]}\<close>, each of \<open>search_web\<close>, \<open>generate_code\<close> and
  \<open>write_essay\<close> returns the content of the first choice's message with the surrounding
  white space removed. The other choices and the other keys of the objects are arbitrary:
  only the first choice is consulted.
\<close>

theorem first_choice_returned:
  assumes key: "truthy (getenv env (lit ''OPENROUTER_API_KEY''))"
    and post: "\<forall>h p t. requests_post env completions_url h p t = Inr response"
    and ok: "\<not> (400 \<le> status_code response \<and> status_code response < 600)"
    and body: "json_result response = Inr (JDict kvs)"
    and choices: "map_of kvs (lit ''choices'') = Some (JList (JDict ckvs # others))"
    and message: "map_of ckvs (lit ''message'') = Some (JDict mkvs)"
    and content: "map_of mkvs (lit ''content'') = Some (JStr content)"
  shows "returned_str (search_web env query) = Some (strip content)
       \<and> returned_str (generate_code env prompt) = Some (strip content)
       \<and> returned_str (write_essay env topic words) = Some (strip content)"
proof -
  have fc: "first_choice_content (JDict kvs) = Inr (strip content)"
    using choices message content by (rule first_choice_content_shape)
  have rs: "raise_for_status response = Inr ()"
    using ok by (rule raise_for_status_ok)
  have s: "returned_str (search_web env query) = Some (strip content)"
    using key post by (simp add: search_web_def search_web_body_def Let_def py_defs rs body fc)
  have g: "returned_str (generate_code env prompt) = Some (strip content)"
    using key post by (simp add: generate_code_def generate_code_body_def Let_def py_defs rs body fc)
  have w: "returned_str (write_essay env topic words) = Some (strip content)"
    using key post by (simp add: write_essay_def write_essay_body_def Let_def py_defs rs body fc)
  show ?thesis using s g w by simp
qed

theorem first_choice_returned_witness:
  "returned_str (search_web (chat_env (lit '' Paris is the capital. '')) (lit ''capital of France?''))
     = Some (lit ''Paris is the capital.'')
   \<and> returned_str (generate_code (chat_env (lit '' Paris is the capital. '')) (lit ''hello world''))
     = Some (lit ''Paris is the capital.'')
   \<and> returned_str (write_essay (chat_env (lit '' Paris is the capital. '')) (lit ''France'') 500)
     = Some (lit ''Paris is the capital.'')"
proof -
  let ?c = "lit '' Paris is the capital. ''"
  have st: "strip ?c = lit ''Paris is the capital.''"
    by (simp add: strip_def is_space_def lit_def)
  have key: "truthy (getenv (chat_env ?c) (lit ''OPENROUTER_API_KEY''))"
    by (simp add: chat_env_def configured_env_def offline_env_def truthy_def lit_def)
  have post: "\<forall>h p t. requests_post (chat_env ?c) completions_url h p t = Inr (completion_response ?c)"
    by (simp add: chat_env_def configured_env_def offline_env_def)
  have ok: "\<not> (400 \<le> status_code (completion_response ?c) \<and> status_code (completion_response ?c) < 600)"
    by (simp add: completion_response_def)
  have body: "json_result (completion_response ?c)
      = Inr (JDict [(lit ''choices'', JList [
          JDict [(lit ''message'', JDict [(lit ''content'', JStr ?c)])],
          JDict [(lit ''message'', JDict [(lit ''content'', JStr (lit ''a second choice''))])]])])"
    by (simp add: completion_response_def completion_json_def)
  show ?thesis
    using first_choice_returned [OF key post ok body, of "[(lit ''message'', JDict [(lit ''content'', JStr ?c)])]"
        "[JDict [(lit ''message'', JDict [(lit ''content'', JStr (lit ''a second choice''))])]]"
        "[(lit ''content'', JStr ?c)]" ?c "lit ''capital of France?''" "lit ''hello world''" "lit ''France''" 500]
    by (simp add: st)
qed

section \<open>Every tool returns a string\<close>

lemma returned_str_iff: "returned_str m = Some s \<longleftrightarrow> fst m = Inr (PStr s)"
  by (cases m rule: returned_str.cases) auto

lemma py_bind_Inr:
  assumes "fst (py_bind m f) = Inr v"
  obtains x where "fst m = Inr x" and "fst (f x) = Inr v"
  using assms by (auto simp add: py_bind_def split: prod.splits sum.splits)

lemma py_try_returns_str:
  assumes body: "\<And>v. fst body = Inr v \<Longrightarrow> \<exists>s. v = PStr s"
    and handler: "\<And>e. \<exists>s. fst (handler e) = Inr (PStr s)"
  shows "\<exists>s. returned_str (py_try body handler) = Some s"
proof (cases "fst body")
  case (Inl e)
  obtain s where "fst (handler e) = Inr (PStr s)" using handler by blast
  then have "fst (py_try body handler) = Inr (PStr s)"
    using Inl by (auto simp add: py_try_def split: prod.splits sum.splits)
  then show ?thesis by (auto simp add: returned_str_iff)
next
  case (Inr v)
  then obtain s where "v = PStr s" using body by blast
  then have "fst (py_try body handler) = Inr (PStr s)"
    using Inr by (auto simp add: py_try_def split: prod.splits sum.splits)
  then show ?thesis by (auto simp add: returned_str_iff)
qed

lemma fst_py_return: "fst (py_return x) = Inr x"
  by (simp add: py_return_def)

lemma get_weather_body_str:
  "fst (get_weather_body env city) = Inr v \<Longrightarrow> \<exists>s. v = PStr s"
  by (auto simp add: get_weather_body_def Let_def fst_py_return elim!: py_bind_Inr split: if_splits)

lemma completion_tail_str:
  assumes "fst (py_bind call (\<lambda>response.
        py_bind (py_eval (raise_for_status response)) (\<lambda>u.
        py_bind (py_eval (json_result response)) (\<lambda>result.
        py_bind (py_eval (first_choice_content result)) (\<lambda>content.
        py_return (PStr content)))))) = Inr v"
  shows "\<exists>s. v = PStr s"
  using assms by (auto simp add: fst_py_return elim!: py_bind_Inr)

lemma search_web_body_str:
  "fst (search_web_body env query) = Inr v \<Longrightarrow> \<exists>s. v = PStr s"
  unfolding search_web_body_def Let_def
  by (auto simp add: fst_py_return dest: completion_tail_str split: if_splits)

lemma generate_code_body_str:
  "fst (generate_code_body env prompt) = Inr v \<Longrightarrow> \<exists>s. v = PStr s"
  unfolding generate_code_body_def Let_def
  by (auto simp add: fst_py_return dest: completion_tail_str split: if_splits)

lemma write_essay_body_str:
  "fst (write_essay_body env topic words) = Inr v \<Longrightarrow> \<exists>s. v = PStr s"
  unfolding write_essay_body_def Let_def
  by (auto simp add: fst_py_return dest: completion_tail_str split: if_splits)

lemma send_email_body_str:
  "fst (send_email_body env to_email subject message cc_email) = Inr v \<Longrightarrow> \<exists>s. v = PStr s"
  unfolding send_email_body_def Let_def
  by (auto simp add: fst_py_return elim!: py_bind_Inr split: if_splits)

lemma send_email_handler_str: "\<exists>s. fst (send_email_handler e) = Inr (PStr s)"
  by (simp add: send_email_handler_def fst_py_return)

lemma save_image_str:
  "fst (save_image env prompt b) = Inr v \<Longrightarrow> \<exists>s. v = PStr s"
  unfolding save_image_def Let_def
  by (auto simp add: fst_py_return elim!: py_bind_Inr)

lemma generate_ai_image_body_str:
  "fst (generate_ai_image_body env prompt) = Inr v \<Longrightarrow> \<exists>s. v = PStr s"
  unfolding generate_ai_image_body_def Let_def
  by (auto simp add: fst_py_return elim!: py_bind_Inr dest: save_image_str
        split: if_splits option.splits list.splits)

text \<open>
  C1. Each of the six tools, on every input and in every environment, returns exactly one
  value and that value is a string; no exception leaves the tool. The environment ranges
  over every outcome of the external calls: a response of any status and any body, a JSON
  value of any shape, an image response of any shape, and any raised exception of a class
  derived from \<open>Exception\<close>.
\<close>

theorem tools_return_str:
  "(\<exists>s. returned_str (get_weather env city) = Some s)
   \<and> (\<exists>s. returned_str (search_web env query) = Some s)
   \<and> (\<exists>s. returned_str (send_email env to_email subject message cc_email) = Some s)
   \<and> (\<exists>s. returned_str (generate_ai_image env image_prompt) = Some s)
   \<and> (\<exists>s. returned_str (generate_code env code_prompt) = Some s)
   \<and> (\<exists>s. returned_str (write_essay env topic words) = Some s)"
proof -
  have w: "\<exists>s. returned_str (get_weather env city) = Some s"
    unfolding get_weather_def
    by (rule py_try_returns_str) (auto dest: get_weather_body_str simp add: fst_py_return)
  have s: "\<exists>s. returned_str (search_web env query) = Some s"
    unfolding search_web_def
    by (rule py_try_returns_str) (auto dest: search_web_body_str simp add: fst_py_return)
  have m: "\<exists>s. returned_str (send_email env to_email subject message cc_email) = Some s"
    unfolding send_email_def
    by (rule py_try_returns_str) (auto dest: send_email_body_str simp add: send_email_handler_str)
  have i: "\<exists>s. returned_str (generate_ai_image env image_prompt) = Some s"
    unfolding generate_ai_image_def
    by (rule py_try_returns_str) (auto dest: generate_ai_image_body_str simp add: fst_py_return)
  have c: "\<exists>s. returned_str (generate_code env code_prompt) = Some s"
    unfolding generate_code_def
    by (rule py_try_returns_str) (auto dest: generate_code_body_str simp add: fst_py_return)
  have e: "\<exists>s. returned_str (write_essay env topic words) = Some s"
    unfolding write_essay_def
    by (rule py_try_returns_str) (auto dest: write_essay_body_str simp add: fst_py_return)
  show ?thesis using w s m i c e by blast
qed


theorem tools_return_str_witness:
  "returned_str (get_weather configured_env (lit ''London'')) \<noteq> None
   \<and> returned_str (search_web configured_env (lit ''capital of France?'')) \<noteq> None
   \<and> returned_str (send_email configured_env (lit ''a@b.c'') (lit ''Hi'') (lit ''Hello'') None) \<noteq> None
   \<and> returned_str (generate_ai_image configured_env (lit ''a red fox'')) \<noteq> None
   \<and> returned_str (generate_code configured_env (lit ''hello world'')) \<noteq> None
   \<and> returned_str (write_essay configured_env (lit ''France'') 500) \<noteq> None"
  using tools_return_str [of configured_env "lit ''London''" "lit ''capital of France?''"
      "lit ''a@b.c''" "lit ''Hi''" "lit ''Hello''" None "lit ''a red fox''" "lit ''hello world''"
      "lit ''France''" 500]
  by auto

section \<open>The effects of the tools\<close>

lemma effects_py_return: "effects (py_return x) = []"
  by (simp add: py_return_def effects_def)

lemma effects_py_try_return:
  "effects (py_try m (\<lambda>e. py_return (h e))) = effects m"
  by (auto simp add: py_try_def py_return_def effects_def split: prod.splits sum.splits)

lemma effects_call_bind:
  "effects (py_bind (py_call ev r) f) = ev # (case r of Inl e \<Rightarrow> [] | Inr x \<Rightarrow> effects (f x))"
  by (auto simp add: py_bind_def py_call_def effects_def split: prod.splits sum.splits)

lemma effects_eval_bind:
  "effects (py_bind (py_eval r) f) = (case r of Inl e \<Rightarrow> [] | Inr x \<Rightarrow> effects (f x))"
  by (auto simp add: py_bind_def py_eval_def effects_def split: prod.splits sum.splits)

lemmas effects_simps = effects_py_return effects_py_try_return effects_call_bind effects_eval_bind

lemma effects_completion_tail:
  "effects (py_bind (py_call ev r) (\<lambda>response.
        py_bind (py_eval (raise_for_status response)) (\<lambda>u.
        py_bind (py_eval (json_result response)) (\<lambda>result.
        py_bind (py_eval (first_choice_content result)) (\<lambda>content.
        py_return (PStr content)))))) = [ev]"
  by (simp add: effects_simps split: sum.splits)

lemma effects_get_weather:
  "effects (get_weather env city) = [HttpGet (lit ''https://wttr.in/'' @ city @ lit ''?format=3'') None]"
  by (simp add: get_weather_def get_weather_body_def Let_def effects_simps split: sum.splits)

lemma effects_search_web:
  "effects (search_web env query) =
     (if truthy (getenv env (lit ''OPENROUTER_API_KEY'')) then
        [HttpPost completions_url
           [(lit ''Authorization'', lit ''Bearer '' @ the (getenv env (lit ''OPENROUTER_API_KEY''))),
            (lit ''Content-Type'', lit ''application/json'')]
           (JDict [
              (lit ''model'', JStr (lit ''tngtech/deepseek-r1t-chimera:free'')),
              (lit ''messages'', JList [
                 JDict [(lit ''role'', JStr (lit ''user'')), (lit ''content'', JStr query)]])])
           None]
      else [])"
  by (simp add: search_web_def search_web_body_def Let_def effects_py_try_return
        effects_completion_tail effects_py_return)

lemma effects_generate_code:
  "\<exists>h p. effects (generate_code env prompt) =
     (if truthy (getenv env (lit ''OPENROUTER_API_KEY'')) then
        [HttpPost completions_url h p (Some 30)]
      else [])"
  by (simp add: generate_code_def generate_code_body_def Let_def effects_py_try_return
        effects_completion_tail effects_py_return)

lemma effects_write_essay:
  "\<exists>h p. effects (write_essay env topic words) =
     (if truthy (getenv env (lit ''OPENROUTER_API_KEY'')) then
        [HttpPost completions_url h p None]
      else [])"
  by (simp add: write_essay_def write_essay_body_def Let_def effects_py_try_return
        effects_completion_tail effects_py_return)

lemma effects_send_email_handler: "effects (send_email_handler e) = []"
  by (simp add: send_email_handler_def effects_py_return)

lemma effects_py_try:
  "effects (py_try m h) = effects m @ (case fst m of Inl e \<Rightarrow> effects (h e) | Inr x \<Rightarrow> [])"
  by (auto simp add: py_try_def effects_def split: prod.splits sum.splits)

lemma effects_send_email:
  "effects (send_email env to_email subject message cc_email)
     = effects (send_email_body env to_email subject message cc_email)"
  by (simp add: send_email_def effects_py_try effects_send_email_handler split: sum.splits)

lemma send_email_no_http:
  "list_all (\<lambda>ev. \<not> is_http ev) (effects (send_email env to_email subject message cc_email))"
  unfolding effects_send_email send_email_body_def Let_def
  by (simp add: effects_simps split: sum.split)

lemma send_email_unconfigured:
  "\<not> truthy (getenv env (lit ''GMAIL_USER'')) \<or> \<not> truthy (getenv env (lit ''GMAIL_APP_PASSWORD''))
   \<Longrightarrow> effects (send_email env to_email subject message cc_email) = []"
  unfolding effects_send_email send_email_body_def Let_def
  by (auto simp add: effects_simps)

lemma save_image_no_http:
  "list_all (\<lambda>ev. \<not> is_http ev) (effects (save_image env prompt b))"
  unfolding save_image_def Let_def
  by (simp add: effects_simps split: sum.split)

lemma effects_generate_ai_image:
  "effects (generate_ai_image env prompt) = effects (generate_ai_image_body env prompt)"
  by (simp add: generate_ai_image_def effects_py_try_return)

lemma generate_ai_image_no_http:
  "list_all (\<lambda>ev. \<not> is_http ev) (effects (generate_ai_image env prompt))"
  unfolding effects_generate_ai_image generate_ai_image_body_def Let_def
  by (simp add: effects_simps save_image_no_http split: sum.split option.split list.split)

lemma generate_ai_image_unconfigured:
  "\<not> truthy (getenv env (lit ''TOGETHER_API_KEY'')) \<Longrightarrow> effects (generate_ai_image env prompt) = []"
  unfolding effects_generate_ai_image generate_ai_image_body_def Let_def
  by (auto simp add: effects_simps)


section \<open>Missing credentials\<close>

lemma credential_phrase_messages:
  "credential_phrase (lit ''OpenRouter API key not found. Please check your .env file.'')"
  "credential_phrase (cross_mark @ lit '' Missing OpenRouter API key. Please check your .env file.'')"
  "credential_phrase (cross_mark @ lit '' OpenRouter API key is missing. Please check your .env file.'')"
  "credential_phrase (lit ''Email sending failed: Gmail credentials not configured.'')"
  "credential_phrase (cross_mark @ lit '' Together AI API key not found. Please check your .env file.'')"
  by (simp_all add: credential_phrase_def lit_def cross_mark_def startswith_def)

lemma validation_message_no_credential_phrase:
  "\<not> credential_phrase (cross_mark @ lit '' Please provide a clear description of the image you want.'')"
  by (simp add: credential_phrase_def lit_def cross_mark_def startswith_def)

lemma strip_Nil: "strip [] = []"
  by (simp add: strip_def)

text \<open>
  C2 (amended). When the OpenRouter credential is absent or empty, \<open>search_web\<close>,
  \<open>generate_code\<close> and \<open>write_essay\<close> each return their missing-key message and perform no
  effect; when either mail credential is absent or empty, \<open>send_email\<close> returns its
  not-configured message and performs no effect; when the image credential is absent or
  empty, \<open>generate_ai_image\<close> performs no effect on any prompt, and returns its missing-key
  message on every prompt of at least 3 characters once trimmed (a shorter prompt is
  answered by the validation message, which is checked first). Each of the five messages
  contains a credential phrase.
\<close>

theorem missing_credential:
  "(\<not> truthy (getenv env (lit ''OPENROUTER_API_KEY'')) \<longrightarrow>
      returned_str (search_web env query)
        = Some (lit ''OpenRouter API key not found. Please check your .env file.'')
      \<and> effects (search_web env query) = []
      \<and> returned_str (generate_code env code_prompt)
        = Some (cross_mark @ lit '' Missing OpenRouter API key. Please check your .env file.'')
      \<and> effects (generate_code env code_prompt) = []
      \<and> returned_str (write_essay env topic words)
        = Some (cross_mark @ lit '' OpenRouter API key is missing. Please check your .env file.'')
      \<and> effects (write_essay env topic words) = [])
   \<and> (\<not> truthy (getenv env (lit ''GMAIL_USER'')) \<or> \<not> truthy (getenv env (lit ''GMAIL_APP_PASSWORD'')) \<longrightarrow>
      returned_str (send_email env to_email subject message cc_email)
        = Some (lit ''Email sending failed: Gmail credentials not configured.'')
      \<and> effects (send_email env to_email subject message cc_email) = [])
   \<and> (\<not> truthy (getenv env (lit ''TOGETHER_API_KEY'')) \<longrightarrow>
      effects (generate_ai_image env image_prompt) = []
      \<and> (3 \<le> length (strip image_prompt) \<longrightarrow>
          returned_str (generate_ai_image env image_prompt)
            = Some (cross_mark @ lit '' Together AI API key not found. Please check your .env file.'')))
   \<and> credential_phrase (lit ''OpenRouter API key not found. Please check your .env file.'')
   \<and> credential_phrase (cross_mark @ lit '' Missing OpenRouter API key. Please check your .env file.'')
   \<and> credential_phrase (cross_mark @ lit '' OpenRouter API key is missing. Please check your .env file.'')
   \<and> credential_phrase (lit ''Email sending failed: Gmail credentials not configured.'')
   \<and> credential_phrase (cross_mark @ lit '' Together AI API key not found. Please check your .env file.'')"
proof -
  have chat: "\<not> truthy (getenv env (lit ''OPENROUTER_API_KEY'')) \<longrightarrow>
      returned_str (search_web env query)
        = Some (lit ''OpenRouter API key not found. Please check your .env file.'')
      \<and> effects (search_web env query) = []
      \<and> returned_str (generate_code env code_prompt)
        = Some (cross_mark @ lit '' Missing OpenRouter API key. Please check your .env file.'')
      \<and> effects (generate_code env code_prompt) = []
      \<and> returned_str (write_essay env topic words)
        = Some (cross_mark @ lit '' OpenRouter API key is missing. Please check your .env file.'')
      \<and> effects (write_essay env topic words) = []"
    by (simp add: search_web_def search_web_body_def generate_code_def generate_code_body_def
          write_essay_def write_essay_body_def py_defs)
  have mail: "\<not> truthy (getenv env (lit ''GMAIL_USER'')) \<or> \<not> truthy (getenv env (lit ''GMAIL_APP_PASSWORD'')) \<longrightarrow>
      returned_str (send_email env to_email subject message cc_email)
        = Some (lit ''Email sending failed: Gmail credentials not configured.'')
      \<and> effects (send_email env to_email subject message cc_email) = []"
    by (auto simp add: send_email_def send_email_body_def py_defs)
  have image: "\<not> truthy (getenv env (lit ''TOGETHER_API_KEY'')) \<longrightarrow>
      effects (generate_ai_image env image_prompt) = []
      \<and> (3 \<le> length (strip image_prompt) \<longrightarrow>
          returned_str (generate_ai_image env image_prompt)
            = Some (cross_mark @ lit '' Together AI API key not found. Please check your .env file.''))"
    by (auto simp add: generate_ai_image_def generate_ai_image_body_def py_defs strip_Nil)
  show ?thesis using chat mail image credential_phrase_messages by blast
qed

text \<open>
  Without the condition on the prompt the statement fails for \<open>generate_ai_image\<close>: with the image credential absent
  and the prompt \<open>" a"\<close> the tool returns the validation message, which has no credential
  phrase in it.
\<close>

theorem missing_credential_counterexample:
  "\<not> truthy (getenv offline_env (lit ''TOGETHER_API_KEY''))
   \<and> returned_str (generate_ai_image offline_env (lit '' a''))
       = Some (cross_mark @ lit '' Please provide a clear description of the image you want.'')
   \<and> \<not> credential_phrase (cross_mark @ lit '' Please provide a clear description of the image you want.'')"
proof -
  have short: "length (strip (lit '' a'')) < 3"
    by (simp add: strip_def is_space_def lit_def)
  have key: "\<not> truthy (getenv offline_env (lit ''TOGETHER_API_KEY''))"
    by (simp add: offline_env_def truthy_def)
  have res: "returned_str (generate_ai_image offline_env (lit '' a''))
       = Some (cross_mark @ lit '' Please provide a clear description of the image you want.'')"
    using short by (simp add: generate_ai_image_def generate_ai_image_body_def py_defs)
  show ?thesis using key res validation_message_no_credential_phrase by simp
qed

theorem missing_credential_witness:
  "returned_str (search_web offline_env (lit ''capital of France?''))
     = Some (lit ''OpenRouter API key not found. Please check your .env file.'')
   \<and> effects (search_web offline_env (lit ''capital of France?'')) = []
   \<and> returned_str (send_email offline_env (lit ''a@b.c'') (lit ''Hi'') (lit ''Hello'') None)
     = Some (lit ''Email sending failed: Gmail credentials not configured.'')
   \<and> effects (send_email offline_env (lit ''a@b.c'') (lit ''Hi'') (lit ''Hello'') None) = []
   \<and> returned_str (generate_ai_image offline_env (lit ''a red fox''))
     = Some (cross_mark @ lit '' Together AI API key not found. Please check your .env file.'')
   \<and> effects (generate_ai_image offline_env (lit ''a red fox'')) = []"
proof -
  have long: "3 \<le> length (strip (lit ''a red fox''))"
    by (simp add: strip_def is_space_def lit_def)
  have key: "\<not> truthy (getenv offline_env k)" for k
    by (simp add: offline_env_def truthy_def)
  show ?thesis
    using long key missing_credential [of offline_env "lit ''capital of France?''" "lit ''hello world''"
        "lit ''France''" 500 "lit ''a@b.c''" "lit ''Hi''" "lit ''Hello''" None "lit ''a red fox''"]
    by simp
qed

section \<open>Timeouts of the HTTP requests\<close>

text \<open>
  C9. Every HTTP request \<open>generate_code\<close> issues carries the timeout 30, and every HTTP request
  \<open>get_weather\<close>, \<open>search_web\<close> and \<open>write_essay\<close> issue carries none; \<open>send_email\<close> and
  \<open>generate_ai_image\<close> issue no request through the HTTP library. \<open>get_weather\<close> always issues
  its one GET, and with the credential configured each of the three completion tools issues
  its one POST, so the statement is about requests that exist.
\<close>

theorem only_generate_code_sets_timeout:
  "list_all (\<lambda>ev. is_http ev \<longrightarrow> http_timeout ev = Some 30) (effects (generate_code env code_prompt))
   \<and> list_all (\<lambda>ev. is_http ev \<longrightarrow> http_timeout ev = None) (effects (get_weather env city))
   \<and> list_all (\<lambda>ev. is_http ev \<longrightarrow> http_timeout ev = None) (effects (search_web env query))
   \<and> list_all (\<lambda>ev. is_http ev \<longrightarrow> http_timeout ev = None) (effects (write_essay env topic words))
   \<and> list_all (\<lambda>ev. \<not> is_http ev) (effects (send_email env to_email subject message cc_email))
   \<and> list_all (\<lambda>ev. \<not> is_http ev) (effects (generate_ai_image env image_prompt))
   \<and> effects (get_weather env city)
       = [HttpGet (lit ''https://wttr.in/'' @ city @ lit ''?format=3'') None]
   \<and> (truthy (getenv env (lit ''OPENROUTER_API_KEY'')) \<longrightarrow>
        (\<exists>h p. effects (generate_code env code_prompt) = [HttpPost completions_url h p (Some 30)])
        \<and> (\<exists>h p. effects (search_web env query) = [HttpPost completions_url h p None])
        \<and> (\<exists>h p. effects (write_essay env topic words) = [HttpPost completions_url h p None]))"
proof -
  obtain hc pc where c: "effects (generate_code env code_prompt) =
     (if truthy (getenv env (lit ''OPENROUTER_API_KEY'')) then
        [HttpPost completions_url hc pc (Some 30)] else [])"
    using effects_generate_code by blast
  obtain he pe where e: "effects (write_essay env topic words) =
     (if truthy (getenv env (lit ''OPENROUTER_API_KEY'')) then
        [HttpPost completions_url he pe None] else [])"
    using effects_write_essay by blast
  note s = effects_search_web [of env query]
  note w = effects_get_weather [of env city]
  have 1: "list_all (\<lambda>ev. is_http ev \<longrightarrow> http_timeout ev = Some 30) (effects (generate_code env code_prompt))"
    by (simp add: c)
  have 2: "list_all (\<lambda>ev. is_http ev \<longrightarrow> http_timeout ev = None) (effects (get_weather env city))"
    by (simp add: w)
  have 3: "list_all (\<lambda>ev. is_http ev \<longrightarrow> http_timeout ev = None) (effects (search_web env query))"
    by (simp add: s)
  have 4: "list_all (\<lambda>ev. is_http ev \<longrightarrow> http_timeout ev = None) (effects (write_essay env topic words))"
    by (simp add: e)
  have 5: "truthy (getenv env (lit ''OPENROUTER_API_KEY'')) \<longrightarrow>
        (\<exists>h p. effects (generate_code env code_prompt) = [HttpPost completions_url h p (Some 30)])
        \<and> (\<exists>h p. effects (search_web env query) = [HttpPost completions_url h p None])
        \<and> (\<exists>h p. effects (write_essay env topic words) = [HttpPost completions_url h p None])"
    by (simp add: c e s)
  show ?thesis
    using 1 2 3 4 5 w send_email_no_http generate_ai_image_no_http by blast
qed

theorem only_generate_code_sets_timeout_witness:
  "map http_timeout (effects (generate_code (chat_env []) (lit ''hello world''))) = [Some 30]
   \<and> map http_timeout (effects (search_web (chat_env []) (lit ''capital of France?''))) = [None]
   \<and> map http_timeout (effects (write_essay (chat_env []) (lit ''France'') 500)) = [None]
   \<and> map http_timeout (effects (get_weather (chat_env []) (lit ''London''))) = [None]"
proof -
  have key: "truthy (getenv (chat_env []) (lit ''OPENROUTER_API_KEY''))"
    by (simp add: chat_env_def configured_env_def offline_env_def truthy_def lit_def)
  show ?thesis
    using key only_generate_code_sets_timeout [of "chat_env []" "lit ''hello world''" "lit ''London''"
        "lit ''capital of France?''" "lit ''France''" 500 "lit ''a@b.c''" "lit ''Hi''" "lit ''Hello''" None
        "lit ''a red fox''"]
    by auto
qed

section \<open>generate_ai_image: the two success branches\<close>












lemma generate_ai_image_first_item:
  assumes prompt: "3 \<le> length (strip prompt)"
    and key: "getenv env (lit ''TOGETHER_API_KEY'') = Some api_key" "api_key \<noteq> []"
    and resp: "\<forall>request. images_generate env api_key request = Inr (Some r)"
    and items: "data r = Some (image_info # others)"
  shows "generate_ai_image_body env prompt =
    py_bind (py_call (ImagesGenerate api_key
                \<lparr>img_prompt = strip prompt,
                 img_model = lit ''black-forest-labs/FLUX.1-schnell-Free'',
                 img_steps = 4, img_n = 1, img_height = 1024, img_width = 1024\<rparr>) (Inr ()))
      (\<lambda>u. if \<not> truthy (b64_json image_info) \<and> \<not> truthy (url image_info) then
               py_return (PStr (cross_mark @ lit '' Image generation failed: no usable output.''))
             else if truthy (b64_json image_info) then save_image env prompt (the (b64_json image_info))
             else if truthy (url image_info) then
               py_return (PStr (
                 check_mark @ lit '' Image generated successfully via URL!<br>''
                 @ picture_sign @ lit '' Preview:<br>''
                 @ img_tag (the (url image_info)) prompt
                 @ download_link (the (url image_info))))
             else py_return PNone)"
proof -
  have "prompt \<noteq> []" using prompt by (auto simp add: strip_Nil)
  then show ?thesis
    using assms
    by (simp add: generate_ai_image_body_def Let_def truthy_def py_bind_def py_call_def)
qed

lemma py_try_returned: "fst m = Inr x \<Longrightarrow> py_try m h = m"
  by (auto simp add: py_try_def split: prod.splits sum.splits)


text \<open>
  C8. When the prompt is valid, the credential is configured and the first item of the image
  response has a URL and no base64 payload, \<open>generate_ai_image\<close> performs no file-system
  effect, so it writes no file, and returns the success message built around that URL,
  which contains the URL.
\<close>

theorem url_image_not_saved:
  assumes prompt: "3 \<le> length (strip prompt)"
    and key: "getenv env (lit ''TOGETHER_API_KEY'') = Some api_key" "api_key \<noteq> []"
    and resp: "\<forall>request. images_generate env api_key request = Inr (Some r)"
    and items: "data r = Some (image_info # others)"
    and b64: "\<not> truthy (b64_json image_info)"
    and link: "url image_info = Some image_url" "image_url \<noteq> []"
  shows "filter is_file_effect (effects (generate_ai_image env prompt)) = []
       \<and> returned_str (generate_ai_image env prompt)
           = Some (check_mark @ lit '' Image generated successfully via URL!<br>''
                   @ picture_sign @ lit '' Preview:<br>''
                   @ img_tag image_url prompt @ download_link image_url)
       \<and> contains image_url
            (check_mark @ lit '' Image generated successfully via URL!<br>''
             @ picture_sign @ lit '' Preview:<br>''
             @ img_tag image_url prompt @ download_link image_url)"
proof -
  let ?s = "check_mark @ lit '' Image generated successfully via URL!<br>''
             @ picture_sign @ lit '' Preview:<br>''
             @ img_tag image_url prompt @ download_link image_url"
  have tu: "truthy (url image_info)" using link by (simp add: truthy_def)
  have body: "generate_ai_image_body env prompt
      = (Inr (PStr ?s),
         [ImagesGenerate api_key
            \<lparr>img_prompt = strip prompt,
             img_model = lit ''black-forest-labs/FLUX.1-schnell-Free'',
             img_steps = 4, img_n = 1, img_height = 1024, img_width = 1024\<rparr>])"
    unfolding generate_ai_image_first_item [OF prompt key resp items]
    using tu b64 link by (simp add: py_bind_def py_call_def py_return_def)
  have tool: "generate_ai_image env prompt = generate_ai_image_body env prompt"
    unfolding generate_ai_image_def by (rule py_try_returned) (simp add: body)
  have eff: "filter is_file_effect (effects (generate_ai_image env prompt)) = []"
    by (simp add: tool body effects_def)
  have res: "returned_str (generate_ai_image env prompt) = Some ?s"
    by (simp add: tool body)
  have \<open>contains image_url ((check_mark @ lit '' Image generated successfully via URL!<br>''
             @ picture_sign @ lit '' Preview:<br>'' @ lit ''<img src="'') @ image_url
             @ (lit ''" alt="'' @ prompt
                @ lit ''" style="max-width:100%; border-radius:12px;"/><br>''
                @ download_link image_url))\<close>
    by (rule contains_mid)
  then have "contains image_url ?s" by (simp add: img_tag_def)
  with eff res show ?thesis by blast
qed


lemma example_prompt: "3 \<le> length (strip (lit ''a red fox''))"
  by (simp add: strip_def is_space_def lit_def)

lemma example_key:
  "getenv (image_env item) (lit ''TOGETHER_API_KEY'') = Some (lit ''secret'')" "lit ''secret'' \<noteq> []"
  by (simp_all add: image_env_def configured_env_def offline_env_def lit_def)

lemma example_images:
  "\<forall>request. images_generate (image_env item) (lit ''secret'') request = Inr (Some \<lparr>data = Some [item]\<rparr>)"
  by (simp add: image_env_def configured_env_def offline_env_def)







theorem url_image_not_saved_witness:
  "filter is_file_effect (effects (generate_ai_image (image_env url_item) (lit ''a red fox''))) = []
   \<and> returned_str (generate_ai_image (image_env url_item) (lit ''a red fox''))
       = Some (check_mark @ lit '' Image generated successfully via URL!<br>''
               @ picture_sign @ lit '' Preview:<br>''
               @ img_tag (lit ''https://img.example/1.png'') (lit ''a red fox'')
               @ download_link (lit ''https://img.example/1.png''))
   \<and> contains (lit ''https://img.example/1.png'')
        (check_mark @ lit '' Image generated successfully via URL!<br>''
         @ picture_sign @ lit '' Preview:<br>''
         @ img_tag (lit ''https://img.example/1.png'') (lit ''a red fox'')
         @ download_link (lit ''https://img.example/1.png''))"
proof -
  have items: "data \<lparr>data = Some [url_item]\<rparr> = Some (url_item # [])" by simp
  have b64: "\<not> truthy (b64_json url_item)" by (simp add: url_item_def truthy_def)
  have link: "url url_item = Some (lit ''https://img.example/1.png'')"
    "lit ''https://img.example/1.png'' \<noteq> []"
    by (simp_all add: url_item_def lit_def)
  show ?thesis
    using url_image_not_saved [OF example_prompt example_key example_images items b64 link]
    by simp
qed

section \<open>send_email: the texts of the outcomes\<close>

lemma returned_str_fst:
  "returned_str m = (case fst m of Inr (PStr s) \<Rightarrow> Some s | Inr PNone \<Rightarrow> None | Inl e \<Rightarrow> None)"
  by (cases m rule: returned_str.cases) auto

lemma py_try_raised: "fst m = Inl e \<Longrightarrow> fst (py_try m h) = fst (h e)"
  by (auto simp add: py_try_def split: prod.splits sum.splits)

lemma send_email_body_outcome:
  assumes "getenv env (lit ''GMAIL_USER'') = Some user" and "user \<noteq> []"
    and "getenv env (lit ''GMAIL_APP_PASSWORD'') = Some password" and "password \<noteq> []"
  shows "fst (send_email_body env to_email subject message cc_email) =
     (case first_raised
        [raised (mime_text env message (lit ''plain'')),
         raised (smtp_connect env (lit ''smtp.gmail.com'') 587),
         raised (smtp_starttls env),
         raised (smtp_login env user password),
         raised (as_string env
           \<lparr>msg_headers = email_headers user to_email subject cc_email,
            msg_parts = [(lit ''plain'', message)]\<rparr>),
         raised (sum_bind (as_string env
           \<lparr>msg_headers = email_headers user to_email subject cc_email,
            msg_parts = [(lit ''plain'', message)]\<rparr>)
           (smtp_sendmail env user (email_recipients to_email cc_email))),
         raised (smtp_quit env)]
      of Some e \<Rightarrow> Inl e
       | None \<Rightarrow> Inr (PStr (lit ''Email sent successfully to '' @ to_email)))"
  using assms
  by (simp add: send_email_body_def Let_def truthy_def raised_def py_defs split: sum.split)

lemma failure_texts_distinct:
  "auth_failure_text \<noteq> lit ''Email sending failed: SMTP error - '' @ d1"
  "auth_failure_text \<noteq> lit ''An error occurred while sending email: '' @ d2"
  "lit ''Email sending failed: SMTP error - '' @ d1 \<noteq> lit ''An error occurred while sending email: '' @ d2"
  by (simp_all add: auth_failure_text_def lit_def)

lemma send_email_handler_texts:
  "returned_str (send_email_handler e) =
     Some (if is_SMTPAuthenticationError e then auth_failure_text
           else if is_SMTPException e then lit ''Email sending failed: SMTP error - '' @ exn_str e
           else lit ''An error occurred while sending email: '' @ exn_str e)"
  by (simp add: send_email_handler_def py_return_def)

text \<open>
  C6. With both credentials configured, the steps of the \<open>try\<close> block of \<open>send_email\<close> that can
  raise are, in order: building the text part, connecting, \<open>starttls\<close>, \<open>login\<close>,
  serialising the message, \<open>sendmail\<close> and \<open>quit\<close>. The first of them to raise decides the
  result, by the class of its exception, among three texts: the fixed authentication text
  for an \<open>SMTPAuthenticationError\<close>, the SMTP text with \<open>str(e)\<close> appended for any other
  \<open>SMTPException\<close>, and the general text with \<open>str(e)\<close> appended for every other exception.
  The three texts differ pairwise whatever the appended details are, so an authentication
  failure is told apart from a generic SMTP failure. When no step raises, the result is
  the confirmation that names the recipient.
\<close>

theorem send_email_texts:
  fixes env :: env and to_email subject message user password :: pystr
    and cc_email :: "pystr option"
  defines "msg \<equiv> \<lparr>msg_headers = email_headers user to_email subject cc_email,
                    msg_parts = [(lit ''plain'', message)]\<rparr>"
  defines "failure \<equiv> first_raised
        [raised (mime_text env message (lit ''plain'')),
         raised (smtp_connect env (lit ''smtp.gmail.com'') 587),
         raised (smtp_starttls env),
         raised (smtp_login env user password),
         raised (as_string env msg),
         raised (sum_bind (as_string env msg)
                   (smtp_sendmail env user (email_recipients to_email cc_email))),
         raised (smtp_quit env)]"
  assumes user: "getenv env (lit ''GMAIL_USER'') = Some user" "user \<noteq> []"
    and password: "getenv env (lit ''GMAIL_APP_PASSWORD'') = Some password" "password \<noteq> []"
  shows "(failure = Some e \<and> is_SMTPAuthenticationError e
          \<longrightarrow> returned_str (send_email env to_email subject message cc_email)
                = Some auth_failure_text)
       \<and> (failure = Some e \<and> is_SMTPException e \<and> \<not> is_SMTPAuthenticationError e
          \<longrightarrow> returned_str (send_email env to_email subject message cc_email)
                = Some (lit ''Email sending failed: SMTP error - '' @ exn_str e))
       \<and> (failure = Some e \<and> \<not> is_SMTPException e
          \<longrightarrow> returned_str (send_email env to_email subject message cc_email)
                = Some (lit ''An error occurred while sending email: '' @ exn_str e))
       \<and> (failure = None
          \<longrightarrow> returned_str (send_email env to_email subject message cc_email)
                = Some (lit ''Email sent successfully to '' @ to_email))
       \<and> auth_failure_text \<noteq> lit ''Email sending failed: SMTP error - '' @ d1
       \<and> auth_failure_text \<noteq> lit ''An error occurred while sending email: '' @ d2
       \<and> lit ''Email sending failed: SMTP error - '' @ d1
           \<noteq> lit ''An error occurred while sending email: '' @ d2"
proof -
  have body: "fst (send_email_body env to_email subject message cc_email) =
     (case failure of Some e \<Rightarrow> Inl e
      | None \<Rightarrow> Inr (PStr (lit ''Email sent successfully to '' @ to_email)))"
    unfolding failure_def msg_def
    using user password by (rule send_email_body_outcome)
  have raised: "returned_str (send_email env to_email subject message cc_email)
        = returned_str (send_email_handler e)" if "failure = Some e"
  proof -
    have "fst (send_email_body env to_email subject message cc_email) = Inl e"
      using body that by simp
    then have "fst (send_email env to_email subject message cc_email) = fst (send_email_handler e)"
      unfolding send_email_def by (rule py_try_raised)
    then show ?thesis by (simp add: returned_str_fst)
  qed
  have sent: "returned_str (send_email env to_email subject message cc_email)
        = Some (lit ''Email sent successfully to '' @ to_email)" if "failure = None"
  proof -
    have b: "fst (send_email_body env to_email subject message cc_email)
        = Inr (PStr (lit ''Email sent successfully to '' @ to_email))"
      using body that by simp
    then have "send_email env to_email subject message cc_email
        = send_email_body env to_email subject message cc_email"
      unfolding send_email_def by (rule py_try_returned)
    then show ?thesis using b by (simp add: returned_str_fst)
  qed
  have auth: "failure = Some e \<and> is_SMTPAuthenticationError e
          \<longrightarrow> returned_str (send_email env to_email subject message cc_email)
                = Some auth_failure_text"
    using raised by (simp add: send_email_handler_texts)
  have smtp: "failure = Some e \<and> is_SMTPException e \<and> \<not> is_SMTPAuthenticationError e
          \<longrightarrow> returned_str (send_email env to_email subject message cc_email)
                = Some (lit ''Email sending failed: SMTP error - '' @ exn_str e)"
    using raised by (simp add: send_email_handler_texts)
  have other: "failure = Some e \<and> \<not> is_SMTPException e
          \<longrightarrow> returned_str (send_email env to_email subject message cc_email)
                = Some (lit ''An error occurred while sending email: '' @ exn_str e)"
  proof (cases e)
    case (Exn c m)
    then show ?thesis using raised by (auto simp add: send_email_handler_texts)
  qed
  show ?thesis
    using auth smtp other sent failure_texts_distinct by blast
qed


theorem send_email_texts_witness:
  "returned_str (send_email (mail_env (Inl bad_login) (Inr ())) (lit ''a@b.c'') (lit ''Hi'') (lit ''Hello'') None)
     = Some auth_failure_text
   \<and> returned_str (send_email (mail_env (Inr ()) (Inl refused)) (lit ''a@b.c'') (lit ''Hi'') (lit ''Hello'') None)
     = Some (lit ''Email sending failed: SMTP error - recipients refused'')
   \<and> returned_str (send_email configured_env (lit ''a@b.c'') (lit ''Hi'') (lit ''Hello'') None)
     = Some (lit ''An error occurred while sending email: Connection refused'')
   \<and> returned_str (send_email (mail_env (Inr ()) (Inr ())) (lit ''a@b.c'')
        (lit ''Hi'' @ [10] @ lit ''there'') (lit ''Hello'') None)
     = Some (lit ''An error occurred while sending email: folded header contains newline'')
   \<and> returned_str (send_email (mail_env (Inr ()) (Inr ())) (lit ''a@b.c'') (lit ''Hi'') (lit ''Hello'')
        (Some (lit ''c@d.e'')))
     = Some (lit ''Email sent successfully to a@b.c'')"
proof -
  have secret: "lit ''secret'' \<noteq> []" by (simp add: lit_def)
  have key: "getenv (mail_env a b) k = Some (lit ''secret'')" for a b k
    by (simp add: mail_env_def configured_env_def offline_env_def)
  have key': "getenv configured_env k = Some (lit ''secret'')" for k
    by (simp add: configured_env_def offline_env_def)
  have 1: "returned_str (send_email (mail_env (Inl bad_login) (Inr ())) (lit ''a@b.c'') (lit ''Hi'') (lit ''Hello'') None)
     = Some auth_failure_text"
    using send_email_texts [where env = "mail_env (Inl bad_login) (Inr ())" and to_email = "lit ''a@b.c''"
        and subject = "lit ''Hi''" and message = "lit ''Hello''" and cc_email = None and e = bad_login,
        OF key secret key secret]
    by (simp add: mail_env_def configured_env_def offline_env_def raised_def sum_bind_def
          example_as_string_def email_headers_def email_recipients_def truthy_def bad_login_def lit_def)
  have 2: "returned_str (send_email (mail_env (Inr ()) (Inl refused)) (lit ''a@b.c'') (lit ''Hi'') (lit ''Hello'') None)
     = Some (lit ''Email sending failed: SMTP error - recipients refused'')"
    using send_email_texts [where env = "mail_env (Inr ()) (Inl refused)" and to_email = "lit ''a@b.c''"
        and subject = "lit ''Hi''" and message = "lit ''Hello''" and cc_email = None and e = refused,
        OF key secret key secret]
    by (simp add: mail_env_def configured_env_def offline_env_def raised_def sum_bind_def
          example_as_string_def email_headers_def email_recipients_def truthy_def refused_def lit_def)
  have 3: "returned_str (send_email configured_env (lit ''a@b.c'') (lit ''Hi'') (lit ''Hello'') None)
     = Some (lit ''An error occurred while sending email: Connection refused'')"
    using send_email_texts [where env = configured_env and to_email = "lit ''a@b.c''"
        and subject = "lit ''Hi''" and message = "lit ''Hello''" and cc_email = None and e = unreachable,
        OF key' secret key' secret]
    by (simp add: configured_env_def offline_env_def raised_def sum_bind_def
          example_as_string_def email_headers_def email_recipients_def truthy_def unreachable_def lit_def)
  have 4: "returned_str (send_email (mail_env (Inr ()) (Inr ())) (lit ''a@b.c'')
        (lit ''Hi'' @ [10] @ lit ''there'') (lit ''Hello'') None)
     = Some (lit ''An error occurred while sending email: folded header contains newline'')"
    using send_email_texts [where env = "mail_env (Inr ()) (Inr ())" and to_email = "lit ''a@b.c''"
        and subject = "lit ''Hi'' @ [10] @ lit ''there''" and message = "lit ''Hello''" and cc_email = None
        and e = "Exn OtherError (lit ''folded header contains newline'')",
        OF key secret key secret]
    by (simp add: mail_env_def configured_env_def offline_env_def raised_def sum_bind_def
          example_as_string_def email_headers_def email_recipients_def truthy_def lit_def)
  have 5: "returned_str (send_email (mail_env (Inr ()) (Inr ())) (lit ''a@b.c'') (lit ''Hi'') (lit ''Hello'')
        (Some (lit ''c@d.e'')))
     = Some (lit ''Email sent successfully to a@b.c'')"
    using send_email_texts [where env = "mail_env (Inr ()) (Inr ())" and to_email = "lit ''a@b.c''"
        and subject = "lit ''Hi''" and message = "lit ''Hello''" and cc_email = "Some (lit ''c@d.e'')",
        OF key secret key secret]
    by (simp add: mail_env_def configured_env_def offline_env_def raised_def sum_bind_def
          example_as_string_def email_headers_def email_recipients_def truthy_def lit_def)
  show ?thesis using 1 2 3 4 5 by simp
qed

end
